theory Spec2Isabelle
  imports Complex_Main
begin

section \<open>The Three.JS scene converter of \<^verbatim>\<open>json2yaml.py\<close>\<close>

text \<open>
  The theory embeds \<^verbatim>\<open>convert_json_to_yaml\<close>. The input dictionary is given the
  shape of a Three.JS scene export: every dictionary is a record whose fields are
  optional, \<open>None\<close> standing for a key that is absent, so that each subscript of the
  source that can raise \<^verbatim>\<open>KeyError\<close> is a branch of the model. Values of another
  JSON type than the one a field holds in such an export are excluded by the types.

  Python floats are idealised as real numbers: \<^verbatim>\<open>float(v)\<close> is the embedding of a
  JSON number into the reals, \<^verbatim>\<open>math.acos\<close> is \<open>arccos\<close> on its domain, and the
  comparisons and the modulo of the source are those of the reals. The value returned
  here is the dictionary \<^verbatim>\<open>yaml_dict\<close> that the source hands to \<^verbatim>\<open>yaml.dump\<close>.
\<close>

subsection \<open>Errors and numbers\<close>

datatype py_error = ValueError string | KeyError string

text \<open>A JSON number is loaded as a Python \<^verbatim>\<open>int\<close> or \<^verbatim>\<open>float\<close>.\<close>

datatype json_num = IntV int | FloatV real

fun py_float :: "json_num \<Rightarrow> real" where
  "py_float (IntV i) = of_int i"
| "py_float (FloatV x) = x"

text \<open>Sequencing of computations that may raise.\<close>

definition then_do :: "py_error + 'a \<Rightarrow> ('a \<Rightarrow> py_error + 'b) \<Rightarrow> py_error + 'b" where
  "then_do m f = (case m of Inl e \<Rightarrow> Inl e | Inr v \<Rightarrow> f v)"

text \<open>\<^verbatim>\<open>d[key]\<close> on a dictionary: an absent key raises \<^verbatim>\<open>KeyError\<close>.\<close>

definition subscript :: "'a option \<Rightarrow> string \<Rightarrow> py_error + 'a" where
  "subscript field key = (case field of None \<Rightarrow> Inl (KeyError key) | Some v \<Rightarrow> Inr v)"

text \<open>The slice \<^verbatim>\<open>xs[i:j]\<close> for \<open>0 \<le> i \<le> j\<close>; it never raises.\<close>

definition slice :: "'a list \<Rightarrow> nat \<Rightarrow> nat \<Rightarrow> 'a list" where
  "slice xs i j = take (j - i) (drop i xs)"

subsection \<open>The input document\<close>

record geometry =
  geo_uuid :: "string option"
  geo_radius :: "json_num option"
  geo_width :: "json_num option"
  geo_height :: "json_num option"
  geo_depth :: "json_num option"

record material =
  mat_uuid :: "string option"
  mat_color :: "int option"

record node =
  node_name :: "string option"
  node_matrix :: "json_num list option"
  node_geometry :: "string option"
  node_material :: "string option"
  node_fov :: "json_num option"
  node_focus :: "json_num option"
  node_intensity :: "json_num option"

record scene_object =
  obj_type :: "string option"
  obj_children :: "node list option"

record json_dict =
  jd_object :: "scene_object option"
  jd_geometries :: "geometry list option"
  jd_materials :: "material list option"

subsection \<open>The output dictionary\<close>

record material_spec =
  matType :: string
  texType :: string
  albedo :: "real list"
  intensity :: "real option"

record new_obj =
  objType :: string
  center :: "real list option"
  position :: "json_num list option"
  radius :: "real option"
  width :: "real option"
  height :: "real option"
  depth :: "real option"
  material :: "material_spec option"

record constants =
  const_width :: int
  const_height :: int
  samplesPerPixel :: int
  maxDepth :: int
  minDepth :: int
  environmentIntensity :: real
  sourcesLambda :: real
  powerRenderCenter :: "real list"

record camera_block =
  lookFrom :: "real list"
  lookAt :: "real list"
  vup :: "real list"
  vfov :: real
  aspectRatio :: real
  aperture :: real
  focusDistance :: real

record yaml_dict =
  yd_constants :: constants
  yd_camera :: camera_block
  yd_world :: "new_obj list"

definition default_constants :: constants where
  "default_constants =
     \<lparr>const_width = 800, const_height = 800, samplesPerPixel = 32, maxDepth = 5000,
      minDepth = 5, environmentIntensity = 0.25, sourcesLambda = 0.122364268571,
      powerRenderCenter = [0, 0, 0]\<rparr>"

definition default_camera :: camera_block where
  "default_camera =
     \<lparr>lookFrom = [0, 0, 0], lookAt = [0, 0, 0], vup = [0, 1, 0], vfov = 90,
      aspectRatio = 1, aperture = 0.1, focusDistance = 10\<rparr>"

definition default_yaml_dict :: yaml_dict where
  "default_yaml_dict =
     \<lparr>yd_constants = default_constants, yd_camera = default_camera, yd_world = []\<rparr>"

definition fresh_obj :: "string \<Rightarrow> new_obj" where
  "fresh_obj nm =
     \<lparr>objType = nm, center = None, position = None, radius = None, width = None,
      height = None, depth = None, material = None\<rparr>"

subsection \<open>The two indexes\<close>

text \<open>
  \<^verbatim>\<open>for geometry in geoarr: geometries[geometry["uuid"]] = geometry\<close>, and the same
  loop over the materials: a later record with the same id overwrites an earlier one.
\<close>

fun index_geometries :: "(string \<rightharpoonup> geometry) \<Rightarrow> geometry list \<Rightarrow> py_error + (string \<rightharpoonup> geometry)" where
  "index_geometries geometries [] = Inr geometries"
| "index_geometries geometries (g # geoarr) =
     (case geo_uuid g of
        None \<Rightarrow> Inl (KeyError ''uuid'')
      | Some u \<Rightarrow> index_geometries (geometries(u \<mapsto> g)) geoarr)"

fun index_materials :: "(string \<rightharpoonup> material) \<Rightarrow> material list \<Rightarrow> py_error + (string \<rightharpoonup> material)" where
  "index_materials materials [] = Inr materials"
| "index_materials materials (m # matarr) =
     (case mat_uuid m of
        None \<Rightarrow> Inl (KeyError ''uuid'')
      | Some u \<Rightarrow> index_materials (materials(u \<mapsto> m)) matarr)"

text \<open>\<^verbatim>\<open>index[id]\<close>: an id that is not in the index raises \<^verbatim>\<open>KeyError\<close>.\<close>

definition lookup :: "(string \<rightharpoonup> 'a) \<Rightarrow> string \<Rightarrow> py_error + 'a" where
  "lookup index k = (case index k of None \<Rightarrow> Inl (KeyError k) | Some v \<Rightarrow> Inr v)"

subsection \<open>Orientation of a plane\<close>

text \<open>
  \<^verbatim>\<open>math.acos\<close> raises \<^verbatim>\<open>ValueError("math domain error")\<close> outside \<open>[-1, 1]\<close>;
  \<^verbatim>\<open>x % y\<close> on floats with \<open>y > 0\<close> is the remainder of the floor division.
\<close>

definition math_acos :: "real \<Rightarrow> py_error + real" where
  "math_acos x =
     (if - 1 \<le> x \<and> x \<le> 1 then Inr (arccos x) else Inl (ValueError ''math domain error''))"

definition py_mod :: "real \<Rightarrow> real \<Rightarrow> real" where
  "py_mod x y = x - y * of_int \<lfloor>x / y\<rfloor>"

text \<open>
  \<^verbatim>\<open>np.array(obj["matrix"]).reshape(4, 4)\<close>: the flat list becomes four rows of four;
  a list of another size than 16 cannot be reshaped.
\<close>

definition reshape_4x4 :: "json_num list \<Rightarrow> py_error + real list list" where
  "reshape_4x4 m =
     (if length m = 16
      then Inr (map (\<lambda>r. map py_float (slice m (4 * r) (4 * r + 4))) [0, 1, 2, 3])
      else Inl (ValueError ''cannot reshape array into shape (4,4)''))"

definition angle_of :: "real \<Rightarrow> py_error + real" where
  "angle_of c = then_do (math_acos c) (\<lambda>a. Inr (py_mod (a * 57.2958) 180))"

text \<open>
  The chain of tests on \<open>roll\<close> and \<open>pitch\<close>, in the order of the source. The result
  names the branch that is taken, \<open>None\<close> being the final \<^verbatim>\<open>else\<close> that raises.
\<close>

datatype plane_branch = Branch1 | Branch2 | Branch3 | Branch4

definition plane_branch_of :: "real \<Rightarrow> real \<Rightarrow> plane_branch option" where
  "plane_branch_of roll pitch =
     (if roll \<le> 0.01 \<and> pitch \<le> 0.01 then Some Branch1
      else if roll - 90 \<le> 0.01 \<and> pitch \<le> 0.01 then Some Branch2
      else if roll \<le> 0.01 \<and> pitch - 90 \<le> 0.01 then Some Branch3
      else if roll - 90 \<le> 0.01 \<and> pitch - 90 \<le> 0.01 then Some Branch4
      else None)"

fun branch_objType :: "plane_branch \<Rightarrow> string" where
  "branch_objType Branch1 = ''XYRectangle''"
| "branch_objType Branch2 = ''XZRectangle''"
| "branch_objType Branch3 = ''YZRectangle''"
| "branch_objType Branch4 = ''YZRectangle''"

definition plane_objType :: "real \<Rightarrow> real \<Rightarrow> py_error + string" where
  "plane_objType roll pitch =
     (case plane_branch_of roll pitch of
        None \<Rightarrow> Inl (ValueError ''Plane has an invalid rotation.'')
      | Some b \<Rightarrow> Inr (branch_objType b))"

text \<open>Lines 65 to 67: the matrix, then \<open>roll\<close> from \<open>m[1][1]\<close>, then \<open>pitch\<close> from \<open>m[0][0]\<close>.\<close>

definition plane_angles :: "json_num list \<Rightarrow> py_error + real \<times> real" where
  "plane_angles m =
     then_do (reshape_4x4 m) (\<lambda>matrix4x4.
     then_do (angle_of (matrix4x4 ! 1 ! 1)) (\<lambda>roll.
     then_do (angle_of (matrix4x4 ! 0 ! 0)) (\<lambda>pitch.
     Inr (roll, pitch))))"

subsection \<open>Colour of a material\<close>

text \<open>
  \<^verbatim>\<open>hex(n)\<close> writes an integer in base 16, lower case, behind the prefix \<^verbatim>\<open>0x\<close>, and
  behind a minus sign when it is negative.
\<close>

definition hex_digit :: "nat \<Rightarrow> char" where
  "hex_digit d = ''0123456789abcdef'' ! d"

fun hex_digits :: "nat \<Rightarrow> string" where
  "hex_digits n =
     (if n < 16 then [hex_digit n] else hex_digits (n div 16) @ [hex_digit (n mod 16)])"

definition py_hex :: "int \<Rightarrow> string" where
  "py_hex n = (if n < 0 then ''-0x'' @ hex_digits (nat (- n)) else ''0x'' @ hex_digits (nat n))"

text \<open>
  \<^verbatim>\<open>int(s, 16)\<close> on the strings that reach it here: pieces of the output of \<^verbatim>\<open>hex\<close>
  without its first two characters, that is lower-case digits of base 16 behind at most
  one \<^verbatim>\<open>x\<close>. Such a piece is a number when it is not empty and all its characters
  are digits; otherwise \<^verbatim>\<open>int\<close> raises \<^verbatim>\<open>ValueError\<close>.
\<close>

definition digit_value :: "char \<Rightarrow> nat option" where
  "digit_value c =
     (if c \<in> set ''0123456789abcdef''
      then Some (length (takeWhile (\<lambda>d. d \<noteq> c) ''0123456789abcdef''))
      else None)"

fun int16_from :: "nat \<Rightarrow> string \<Rightarrow> nat option" where
  "int16_from acc [] = Some acc"
| "int16_from acc (c # cs) =
     (case digit_value c of None \<Rightarrow> None | Some d \<Rightarrow> int16_from (16 * acc + d) cs)"

definition py_int16 :: "string \<Rightarrow> py_error + int" where
  "py_int16 s =
     (case (if s = [] then None else int16_from 0 s) of
        None \<Rightarrow> Inl (ValueError ''invalid literal for int() with base 16'')
      | Some v \<Rightarrow> Inr (int v))"

text \<open>\<^verbatim>\<open>range(0, stop, step)\<close> for \<open>step \<ge> 0\<close>: a step of zero raises.\<close>

definition py_range :: "nat \<Rightarrow> nat \<Rightarrow> py_error + nat list" where
  "py_range stop step =
     (if step = 0 then Inl (ValueError ''range() arg 3 must not be zero'')
      else Inr (map (\<lambda>k. k * step) [0 ..< (stop + step - 1) div step]))"

text \<open>A list comprehension whose body may raise: the first error ends it.\<close>

fun comprehension :: "('a \<Rightarrow> py_error + 'b) \<Rightarrow> 'a list \<Rightarrow> py_error + 'b list" where
  "comprehension f [] = Inr []"
| "comprehension f (x # xs) =
     then_do (f x) (\<lambda>y. then_do (comprehension f xs) (\<lambda>ys. Inr (y # ys)))"

definition rgbcolor :: "string \<Rightarrow> py_error + int list" where
  "rgbcolor hex_color =
     then_do (py_range (length hex_color) (length hex_color div 3)) (\<lambda>starts.
     comprehension (\<lambda>i. py_int16 (slice hex_color i (i + length hex_color div 3))) starts)"

definition color_albedo :: "int \<Rightarrow> py_error + real list" where
  "color_albedo color =
     then_do (rgbcolor (drop 2 (py_hex color))) (\<lambda>rgb. Inr (map (\<lambda>c. of_int c / 255) rgb))"

text \<open>Lines 114 to 121: the Lambertian material of a node that has none yet.\<close>

definition resolve_material :: "(string \<rightharpoonup> material) \<Rightarrow> node \<Rightarrow> py_error + material_spec" where
  "resolve_material materials obj =
     then_do (subscript (node_material obj) ''material'') (\<lambda>mid.
     then_do (lookup materials mid) (\<lambda>m.
     then_do (subscript (mat_color m) ''color'') (\<lambda>color.
     then_do (color_albedo color) (\<lambda>a.
     Inr \<lparr>matType = ''Lambertian'', texType = ''SolidColor'', albedo = a, intensity = None\<rparr>))))"

subsection \<open>One node\<close>

text \<open>\<^verbatim>\<open>float(geometries[obj["geometry"]][key])\<close>\<close>

definition geometry_field ::
  "(string \<rightharpoonup> geometry) \<Rightarrow> node \<Rightarrow> (geometry \<Rightarrow> json_num option) \<Rightarrow> string \<Rightarrow> py_error + real" where
  "geometry_field geometries obj field key =
     then_do (subscript (node_geometry obj) ''geometry'') (\<lambda>gid.
     then_do (lookup geometries gid) (\<lambda>g.
     then_do (subscript (field g) key) (\<lambda>v.
     Inr (py_float v))))"

definition sphere_obj :: "(string \<rightharpoonup> geometry) \<Rightarrow> node \<Rightarrow> py_error + new_obj" where
  "sphere_obj geometries obj =
     then_do (subscript (node_matrix obj) ''matrix'') (\<lambda>m.
     then_do (geometry_field geometries obj geo_radius ''radius'') (\<lambda>r.
     Inr ((fresh_obj ''Sphere'')\<lparr>center := Some (map py_float (slice m 12 15)), radius := Some r\<rparr>)))"

definition plane_obj :: "(string \<rightharpoonup> geometry) \<Rightarrow> node \<Rightarrow> py_error + new_obj" where
  "plane_obj geometries obj =
     then_do (subscript (node_matrix obj) ''matrix'') (\<lambda>m.
     then_do (geometry_field geometries obj geo_width ''width'') (\<lambda>w.
     then_do (geometry_field geometries obj geo_height ''height'') (\<lambda>h.
     then_do (plane_angles m) (\<lambda>(roll, pitch).
     then_do (plane_objType roll pitch) (\<lambda>t.
     Inr ((fresh_obj ''Plane'')
            \<lparr>objType := t, position := Some (slice m 12 15), width := Some w, height := Some h\<rparr>))))))"

definition box_obj :: "(string \<rightharpoonup> geometry) \<Rightarrow> node \<Rightarrow> py_error + new_obj" where
  "box_obj geometries obj =
     then_do (subscript (node_matrix obj) ''matrix'') (\<lambda>m.
     then_do (geometry_field geometries obj geo_width ''width'') (\<lambda>w.
     then_do (geometry_field geometries obj geo_height ''height'') (\<lambda>h.
     then_do (geometry_field geometries obj geo_depth ''depth'') (\<lambda>d.
     Inr ((fresh_obj ''Box'')
            \<lparr>position := Some (map (\<lambda>v. FloatV (py_float v)) (slice m 12 15)),
             width := Some w, height := Some h, depth := Some d\<rparr>)))))"

definition set_camera :: "camera_block \<Rightarrow> node \<Rightarrow> py_error + camera_block" where
  "set_camera cam obj =
     then_do (subscript (node_matrix obj) ''matrix'') (\<lambda>m.
     then_do (subscript (node_fov obj) ''fov'') (\<lambda>fov.
     then_do (subscript (node_focus obj) ''focus'') (\<lambda>focus.
     Inr (cam\<lparr>lookFrom := map py_float (slice m 12 15), lookAt := map py_float (slice m 8 11),
              vfov := py_float fov, focusDistance := py_float focus\<rparr>))))"

definition pointlight_obj :: "node \<Rightarrow> py_error + new_obj" where
  "pointlight_obj obj =
     then_do (subscript (node_matrix obj) ''matrix'') (\<lambda>m.
     then_do (subscript (node_intensity obj) ''intensity'') (\<lambda>i.
     Inr ((fresh_obj ''PointLight'')
            \<lparr>objType := ''Sphere'', center := Some (map py_float (slice m 12 15)),
             radius := Some 1,
             material := Some \<lparr>matType = ''DiffuseLight'', texType = ''SolidColor'',
                               albedo = [1, 1, 1], intensity = Some (py_float i * 10)\<rparr>\<rparr>)))"

text \<open>
  Lines 110 to 122: an object that carries a material already is appended as it is;
  any other one gets the material that its node refers to, and is appended then.
\<close>

definition append_obj :: "(string \<rightharpoonup> material) \<Rightarrow> yaml_dict \<Rightarrow> node \<Rightarrow> new_obj \<Rightarrow> py_error + yaml_dict" where
  "append_obj materials yaml_dict obj new_obj =
     (if material new_obj \<noteq> None then Inr (yaml_dict\<lparr>yd_world := yd_world yaml_dict @ [new_obj]\<rparr>)
      else then_do (resolve_material materials obj) (\<lambda>mat.
           Inr (yaml_dict\<lparr>yd_world := yd_world yaml_dict @ [new_obj\<lparr>material := Some mat\<rparr>]\<rparr>)))"

text \<open>The body of the loop over the children of the scene, lines 53 to 122.\<close>

definition loop_body ::
  "(string \<rightharpoonup> geometry) \<Rightarrow> (string \<rightharpoonup> material) \<Rightarrow> yaml_dict \<Rightarrow> node \<Rightarrow> py_error + yaml_dict" where
  "loop_body geometries materials yaml_dict obj =
     then_do (subscript (node_name obj) ''name'') (\<lambda>nm.
       if nm = ''Sphere'' then
         then_do (sphere_obj geometries obj) (append_obj materials yaml_dict obj)
       else if nm = ''Plane'' then
         then_do (plane_obj geometries obj) (append_obj materials yaml_dict obj)
       else if nm = ''Box'' then
         then_do (box_obj geometries obj) (append_obj materials yaml_dict obj)
       else if nm = ''PerspectiveCamera'' then
         then_do (set_camera (yd_camera yaml_dict) obj) (\<lambda>cam. Inr (yaml_dict\<lparr>yd_camera := cam\<rparr>))
       else if nm = ''PointLight'' then
         then_do (pointlight_obj obj) (append_obj materials yaml_dict obj)
       else Inl (ValueError ''Unknown object type.''))"

fun loop :: "(string \<rightharpoonup> geometry) \<Rightarrow> (string \<rightharpoonup> material) \<Rightarrow> yaml_dict \<Rightarrow> node list \<Rightarrow> py_error + yaml_dict" where
  "loop geometries materials yaml_dict [] = Inr yaml_dict"
| "loop geometries materials yaml_dict (obj # objs) =
     then_do (loop_body geometries materials yaml_dict obj) (\<lambda>yaml_dict'.
     loop geometries materials yaml_dict' objs)"

subsection \<open>The conversion\<close>

text \<open>
  Line 17: \<^verbatim>\<open>"object" not in json_dict or "type" not in json_dict["object"] or
  json_dict["object"]["type"] != "Scene"\<close>.
\<close>

definition not_a_scene :: "json_dict \<Rightarrow> bool" where
  "not_a_scene json_dict =
     (case jd_object json_dict of
        None \<Rightarrow> True
      | Some ob \<Rightarrow> (case obj_type ob of None \<Rightarrow> True | Some t \<Rightarrow> t \<noteq> ''Scene''))"

definition convert_json_to_yaml :: "json_dict \<Rightarrow> py_error + yaml_dict" where
  "convert_json_to_yaml json_dict =
     (if not_a_scene json_dict then Inl (ValueError ''JSON file is not a Three.JS JSON Scene file.'')
      else
        then_do (subscript (jd_geometries json_dict) ''geometries'') (\<lambda>geoarr.
        then_do (index_geometries Map.empty geoarr) (\<lambda>geometries.
        then_do (subscript (jd_materials json_dict) ''materials'') (\<lambda>matarr.
        then_do (index_materials Map.empty matarr) (\<lambda>materials.
        then_do (subscript (jd_object json_dict) ''object'') (\<lambda>ob.
        then_do (subscript (obj_children ob) ''children'') (\<lambda>objs.
        loop geometries materials default_yaml_dict objs)))))))"

subsection \<open>Notions used to state the properties\<close>

text \<open>A camera node, as the loop tells it from the others.\<close>

definition is_camera :: "node \<Rightarrow> bool" where
  "is_camera obj = (node_name obj = Some ''PerspectiveCamera'')"

text \<open>The object that a Sphere, Plane or Box node yields before its material is set.\<close>

definition shape_obj :: "(string \<rightharpoonup> geometry) \<Rightarrow> node \<Rightarrow> py_error + new_obj" where
  "shape_obj geometries obj =
     (if node_name obj = Some ''Sphere'' then sphere_obj geometries obj
      else if node_name obj = Some ''Plane'' then plane_obj geometries obj
      else if node_name obj = Some ''Box'' then box_obj geometries obj
      else Inl (ValueError ''Unknown object type.''))"

text \<open>
  \<open>originates geometries materials obj w\<close>: \<open>w\<close> is the world object that the body of
  the loop appends for the node \<open>obj\<close>.
\<close>

definition originates :: "(string \<rightharpoonup> geometry) \<Rightarrow> (string \<rightharpoonup> material) \<Rightarrow> node \<Rightarrow> new_obj \<Rightarrow> bool" where
  "originates geometries materials obj w =
     (loop_body geometries materials default_yaml_dict obj = Inr (default_yaml_dict\<lparr>yd_world := [w]\<rparr>))"

text \<open>The branch of the orientation tests that the matrix of a Plane node takes.\<close>

definition matrix_branch :: "json_num list \<Rightarrow> py_error + plane_branch option" where
  "matrix_branch m = then_do (plane_angles m) (\<lambda>(roll, pitch). Inr (plane_branch_of roll pitch))"

text \<open>Lines 110 to 121 as a function of the object: the object with its material.\<close>

definition with_material :: "(string \<rightharpoonup> material) \<Rightarrow> node \<Rightarrow> new_obj \<Rightarrow> py_error + new_obj" where
  "with_material materials obj new_obj =
     (if material new_obj \<noteq> None then Inr new_obj
      else then_do (resolve_material materials obj) (\<lambda>mat. Inr (new_obj\<lparr>material := Some mat\<rparr>)))"

text \<open>The world object of a node that is not a camera, whatever the state of the loop.\<close>

definition world_object :: "(string \<rightharpoonup> geometry) \<Rightarrow> (string \<rightharpoonup> material) \<Rightarrow> node \<Rightarrow> py_error + new_obj" where
  "world_object geometries materials obj =
     then_do (subscript (node_name obj) ''name'') (\<lambda>nm.
       if nm = ''Sphere'' then then_do (sphere_obj geometries obj) (with_material materials obj)
       else if nm = ''Plane'' then then_do (plane_obj geometries obj) (with_material materials obj)
       else if nm = ''Box'' then then_do (box_obj geometries obj) (with_material materials obj)
       else if nm = ''PointLight'' then then_do (pointlight_obj obj) (with_material materials obj)
       else Inl (ValueError ''Unknown object type.''))"

text \<open>A camera block whose three fields that no node sets have their default values.\<close>

definition keeps_defaults :: "camera_block \<Rightarrow> bool" where
  "keeps_defaults cam =
     (vup cam = vup default_camera \<and> aspectRatio cam = aspectRatio default_camera \<and>
      aperture cam = aperture default_camera)"

text \<open>The angle that the source computes from a matrix entry \<open>1/2\<close>, about 60 degrees.\<close>

definition acos_half_degrees :: real where
  "acos_half_degrees = arccos (1 / 2) * 57.2958"

text \<open>The angle that the source computes from a matrix entry \<open>0\<close>, about 90 degrees.\<close>

definition acos_zero_degrees :: real where
  "acos_zero_degrees = arccos 0 * 57.2958"

subsection \<open>Example documents\<close>

definition scene :: "geometry list \<Rightarrow> material list \<Rightarrow> node list \<Rightarrow> json_dict" where
  "scene geoarr matarr objs =
     \<lparr>jd_object = Some \<lparr>obj_type = Some ''Scene'', obj_children = Some objs\<rparr>,
      jd_geometries = Some geoarr, jd_materials = Some matarr\<rparr>"

text \<open>
  A transform whose diagonal starts with \<open>a\<close> and \<open>b\<close> and whose translation, at the
  offsets 12 to 14, is \<open>(1, 2, 3)\<close>.
\<close>

definition transform :: "real \<Rightarrow> real \<Rightarrow> json_num list" where
  "transform a b =
     [FloatV a, IntV 0, IntV 0, IntV 0, IntV 0, FloatV b, IntV 0, IntV 0,
      IntV 0, IntV 0, IntV 1, IntV 0, IntV 1, IntV 2, IntV 3, IntV 1]"

text \<open>
  Two rotations, as Three.JS writes them: by 60 degrees about the X axis, and by a
  quarter turn about the Z axis; both with the translation \<open>(1, 2, 3)\<close>.
\<close>

definition rotation_x_60 :: "json_num list" where
  "rotation_x_60 =
     [IntV 1, IntV 0, IntV 0, IntV 0,
      IntV 0, FloatV 0.5, FloatV 0.8660254, IntV 0,
      IntV 0, FloatV (- 0.8660254), FloatV 0.5, IntV 0,
      IntV 1, IntV 2, IntV 3, IntV 1]"

definition rotation_z_90 :: "json_num list" where
  "rotation_z_90 =
     [IntV 0, IntV 1, IntV 0, IntV 0,
      IntV (- 1), IntV 0, IntV 0, IntV 0,
      IntV 0, IntV 0, IntV 1, IntV 0,
      IntV 1, IntV 2, IntV 3, IntV 1]"

definition example_geometry :: geometry where
  "example_geometry =
     \<lparr>geo_uuid = Some ''g'', geo_radius = Some (IntV 2), geo_width = Some (IntV 4),
      geo_height = Some (FloatV 2.5), geo_depth = Some (IntV 1)\<rparr>"

definition example_material :: "int \<Rightarrow> material" where
  "example_material color = \<lparr>mat_uuid = Some ''m'', mat_color = Some color\<rparr>"

definition shape_node :: "string \<Rightarrow> json_num list \<Rightarrow> node" where
  "shape_node nm m =
     \<lparr>node_name = Some nm, node_matrix = Some m, node_geometry = Some ''g'',
      node_material = Some ''m'', node_fov = None, node_focus = None, node_intensity = None\<rparr>"

definition camera_node :: "json_num list \<Rightarrow> json_num \<Rightarrow> json_num \<Rightarrow> node" where
  "camera_node m fov focus =
     \<lparr>node_name = Some ''PerspectiveCamera'', node_matrix = Some m, node_geometry = None,
      node_material = None, node_fov = Some fov, node_focus = Some focus, node_intensity = None\<rparr>"

definition light_node :: "json_num list \<Rightarrow> json_num \<Rightarrow> node" where
  "light_node m i =
     \<lparr>node_name = Some ''PointLight'', node_matrix = Some m, node_geometry = None,
      node_material = None, node_fov = None, node_focus = None, node_intensity = Some i\<rparr>"

text \<open>A scene with a sphere, a light and two cameras, and its conversion.\<close>

definition example_scene :: json_dict where
  "example_scene =
     scene [example_geometry] [example_material 16777215]
       [shape_node ''Sphere'' (transform 1 1),
        camera_node (transform 1 1) (IntV 50) (IntV 10),
        light_node (transform 1 1) (IntV 2),
        camera_node (transform 1 1) (IntV 40) (FloatV 2.5)]"

definition example_sphere :: new_obj where
  "example_sphere =
     \<lparr>objType = ''Sphere'', center = Some [1, 2, 3], position = None, radius = Some 2,
      width = None, height = None, depth = None,
      material = Some \<lparr>matType = ''Lambertian'', texType = ''SolidColor'',
                        albedo = [1, 1, 1], intensity = None\<rparr>\<rparr>"

definition example_light :: new_obj where
  "example_light =
     \<lparr>objType = ''Sphere'', center = Some [1, 2, 3], position = None, radius = Some 1,
      width = None, height = None, depth = None,
      material = Some \<lparr>matType = ''DiffuseLight'', texType = ''SolidColor'',
                        albedo = [1, 1, 1], intensity = Some 20\<rparr>\<rparr>"

definition example_output :: yaml_dict where
  "example_output =
     \<lparr>yd_constants = default_constants,
      yd_camera = default_camera\<lparr>lookFrom := [1, 2, 3], lookAt := [0, 0, 1], vfov := 40,
                                 focusDistance := 2.5\<rparr>,
      yd_world = [example_sphere, example_light]\<rparr>"

text \<open>
  A camera turned about the Y axis and placed at \<open>(4, 5, 6)\<close>; a scene with two
  cameras whose matrices, fields of view and focus distances all differ; and the camera
  block of its conversion.
\<close>

definition rotation_y_camera :: "json_num list" where
  "rotation_y_camera =
     [FloatV 0.8, IntV 0, FloatV (- 0.6), IntV 0,
      IntV 0, IntV 1, IntV 0, IntV 0,
      FloatV 0.6, IntV 0, FloatV 0.8, IntV 0,
      IntV 4, IntV 5, IntV 6, IntV 1]"

definition two_camera_scene :: json_dict where
  "two_camera_scene =
     scene [] []
       [camera_node (transform 1 1) (IntV 50) (IntV 10),
        light_node (transform 1 1) (IntV 2),
        camera_node rotation_y_camera (IntV 40) (FloatV 2.5)]"

definition last_camera_block :: camera_block where
  "last_camera_block =
     \<lparr>lookFrom = [4, 5, 6], lookAt = [0.6, 0, 0.8], vup = [0, 1, 0], vfov = 40,
      aspectRatio = 1, aperture = 0.1, focusDistance = 2.5\<rparr>"

section \<open>Properties\<close>

subsection \<open>Evaluation\<close>

lemmas error_defs = then_do_def subscript_def lookup_def

lemmas color_defs =
  color_albedo_def py_hex_def rgbcolor_def py_range_def slice_def py_int16_def digit_value_def
  hex_digit_def

lemma then_do_Inl: "then_do (Inl e) f = Inl e"
  by (simp add: then_do_def)

lemma then_do_Inr: "then_do (Inr v) f = f v"
  by (simp add: then_do_def)

lemma color_white: "color_albedo 16777215 = Inr [1, 1, 1]"
  by (simp add: color_defs error_defs)

lemma color_black: "color_albedo 0 = Inl (ValueError ''range() arg 3 must not be zero'')"
  by (simp add: color_defs error_defs)

lemma py_mod_small: "0 \<le> x \<Longrightarrow> x < y \<Longrightarrow> py_mod x y = x"
  by (simp add: py_mod_def floor_eq_iff)

lemma angle_of_one: "angle_of 1 = Inr 0"
  by (simp add: angle_of_def math_acos_def then_do_def py_mod_def)

lemma acos_half_bounds: "38 < acos_half_degrees" "acos_half_degrees < 77"
  using pi_less_4 pi_ge_two by (simp_all add: acos_half_degrees_def)

lemma angle_of_half: "angle_of (1 / 2) = Inr acos_half_degrees"
  using acos_half_bounds
  by (simp add: angle_of_def math_acos_def then_do_def py_mod_small acos_half_degrees_def)

text \<open>
  Bounds on \<open>pi / 2\<close> from the series of the cosine: its remainder after ten terms, and
  the sign of the cosine at two points around \<open>pi / 2\<close>.
\<close>

lemma cos_sum_10:
  "(\<Sum>m<10. cos_coeff m * x ^ m) =
     1 - x\<^sup>2 / 2 + x ^ 4 / 24 - x ^ 6 / 720 + x ^ 8 / 40320" for x :: real
proof -
  have "{..<10::nat} = {0, 1, 2, 3, 4, 5, 6, 7, 8, 9}"
    by auto
  then show ?thesis
    by (simp add: cos_coeff_def fact_numeral)
qed

lemma cos_remainder_10:
  assumes "0 \<le> x"
  shows "\<bar>cos x - (\<Sum>m<10. cos_coeff m * x ^ m)\<bar> \<le> x ^ 10 / fact 10"
proof -
  obtain t where
    t: "cos x = (\<Sum>m<10. cos_coeff m * x ^ m) + (cos (t + 1 / 2 * real 10 * pi) / fact 10) * x ^ 10"
    using Maclaurin_cos_expansion [of x 10] by blast
  let ?c = "cos (t + 1 / 2 * real 10 * pi)"
  have "\<bar>?c\<bar> * (x ^ 10 / fact 10) \<le> 1 * (x ^ 10 / fact 10)"
    using assms by (intro mult_right_mono) simp_all
  moreover have "\<bar>?c / fact 10 * x ^ 10\<bar> = \<bar>?c\<bar> * (x ^ 10 / fact 10)"
    using assms by (simp add: abs_mult)
  ultimately show ?thesis
    using t by simp
qed

lemma cos_above_quarter_turn: "cos (15709 / 10000 :: real) < 0"
proof -
  let ?x = "15709 / 10000 :: real"
  have "cos ?x \<le> (\<Sum>m<10. cos_coeff m * ?x ^ m) + ?x ^ 10 / fact 10"
    using cos_remainder_10 [of ?x] by simp
  also have "\<dots> < 0"
    unfolding cos_sum_10 by (simp add: fact_numeral power_divide)
  finally show ?thesis .
qed

lemma cos_below_quarter_turn: "0 < cos (15707 / 10000 :: real)"
proof -
  let ?x = "15707 / 10000 :: real"
  have "0 < (\<Sum>m<10. cos_coeff m * ?x ^ m) - ?x ^ 10 / fact 10"
    unfolding cos_sum_10 by (simp add: fact_numeral power_divide)
  also have "\<dots> \<le> cos ?x"
    using cos_remainder_10 [of ?x] by simp
  finally show ?thesis .
qed

lemma pi_half_bounds: "15707 / 10000 < pi / 2" "pi / 2 < 15709 / 10000"
proof -
  show "15707 / 10000 < pi / 2"
  proof (rule ccontr)
    assume "\<not> 15707 / 10000 < pi / 2"
    then have "pi / 2 \<le> 15707 / 10000"
      by simp
    moreover have "15707 / 10000 \<le> pi"
      using pi_ge_two by simp
    ultimately have "cos (15707 / 10000) \<le> cos (pi / 2)"
      by (intro cos_monotone_0_pi_le) simp_all
    with cos_below_quarter_turn show False
      by simp
  qed
  show "pi / 2 < 15709 / 10000"
  proof (rule ccontr)
    assume "\<not> pi / 2 < 15709 / 10000"
    then have "0 \<le> cos (15709 / 10000 :: real)"
      by (intro cos_ge_zero) simp_all
    with cos_above_quarter_turn show False
      by simp
  qed
qed

lemma acos_zero_bounds: "89.99 < acos_zero_degrees" "acos_zero_degrees < 90.01"
  using pi_half_bounds by (simp_all add: acos_zero_degrees_def)

lemma angle_of_zero: "angle_of 0 = Inr acos_zero_degrees"
proof -
  have "0 \<le> acos_zero_degrees" "acos_zero_degrees < 180"
    using acos_zero_bounds by simp_all
  then show ?thesis
    by (simp add: angle_of_def math_acos_def then_do_def py_mod_small acos_zero_degrees_def)
qed

lemma angle_of_outside:
  "c < - 1 \<or> 1 < c \<Longrightarrow> angle_of c = Inl (ValueError ''math domain error'')"
  by (auto simp: angle_of_def math_acos_def then_do_def)

lemma angle_of_inside:
  "- 1 \<le> c \<Longrightarrow> c \<le> 1 \<Longrightarrow> angle_of c = Inr (py_mod (arccos c * 57.2958) 180)"
  by (simp add: angle_of_def math_acos_def then_do_def)

lemma plane_angles_16:
  "length m = 16 \<Longrightarrow>
   plane_angles m =
     then_do (angle_of (py_float (m ! 5))) (\<lambda>roll.
     then_do (angle_of (py_float (m ! 0))) (\<lambda>pitch. Inr (roll, pitch)))"
proof -
  assume len: "length m = 16"
  let ?rows = "map (\<lambda>r. map py_float (slice m (4 * r) (4 * r + 4))) [0, 1, 2, 3]"
  have "?rows ! 1 ! 1 = py_float (m ! 5)" and "?rows ! 0 ! 0 = py_float (m ! 0)"
    using len by (simp_all add: slice_def)
  then show ?thesis
    using len by (simp add: plane_angles_def reshape_4x4_def then_do_Inr)
qed

lemma convert_scene:
  "index_geometries Map.empty geoarr = Inr geometries \<Longrightarrow>
   index_materials Map.empty matarr = Inr materials \<Longrightarrow>
   convert_json_to_yaml (scene geoarr matarr objs) = loop geometries materials default_yaml_dict objs"
  by (simp add: convert_json_to_yaml_def not_a_scene_def scene_def subscript_def then_do_Inr)

lemma default_yaml_dict_fields:
  "yd_world default_yaml_dict = []" "yd_camera default_yaml_dict = default_camera"
  "yd_constants default_yaml_dict = default_constants"
  by (simp_all add: default_yaml_dict_def)

lemma index_example_geometry:
  "index_geometries Map.empty [example_geometry] = Inr [''g'' \<mapsto> example_geometry]"
  by (simp add: example_geometry_def)

lemma index_example_material:
  "index_materials Map.empty [example_material c] = Inr [''m'' \<mapsto> example_material c]"
  by (simp add: example_material_def)

lemma loop_body_Sphere:
  "node_name obj = Some ''Sphere'' \<Longrightarrow>
   loop_body geometries materials yaml_dict obj =
     then_do (sphere_obj geometries obj) (append_obj materials yaml_dict obj)"
  by (simp add: loop_body_def subscript_def then_do_Inr)

lemma loop_body_Plane:
  "node_name obj = Some ''Plane'' \<Longrightarrow>
   loop_body geometries materials yaml_dict obj =
     then_do (plane_obj geometries obj) (append_obj materials yaml_dict obj)"
  by (simp add: loop_body_def subscript_def then_do_Inr)

lemma loop_body_Box:
  "node_name obj = Some ''Box'' \<Longrightarrow>
   loop_body geometries materials yaml_dict obj =
     then_do (box_obj geometries obj) (append_obj materials yaml_dict obj)"
  by (simp add: loop_body_def subscript_def then_do_Inr)

lemma loop_body_Camera:
  "node_name obj = Some ''PerspectiveCamera'' \<Longrightarrow>
   loop_body geometries materials yaml_dict obj =
     then_do (set_camera (yd_camera yaml_dict) obj) (\<lambda>cam. Inr (yaml_dict\<lparr>yd_camera := cam\<rparr>))"
  by (simp add: loop_body_def subscript_def then_do_Inr)

lemma loop_body_PointLight:
  "node_name obj = Some ''PointLight'' \<Longrightarrow>
   loop_body geometries materials yaml_dict obj =
     then_do (pointlight_obj obj) (append_obj materials yaml_dict obj)"
  by (simp add: loop_body_def subscript_def then_do_Inr)

lemma shape_node_fields:
  "node_name (shape_node nm m) = Some nm" "node_matrix (shape_node nm m) = Some m"
  "node_geometry (shape_node nm m) = Some ''g''" "node_material (shape_node nm m) = Some ''m''"
  by (simp_all add: shape_node_def)

lemma resolve_example_material:
  "color_albedo c = r \<Longrightarrow>
   resolve_material [''m'' \<mapsto> example_material c] (shape_node nm m) =
     then_do r (\<lambda>a. Inr \<lparr>matType = ''Lambertian'', texType = ''SolidColor'', albedo = a,
                          intensity = None\<rparr>)"
  by (simp add: resolve_material_def shape_node_fields subscript_def lookup_def then_do_Inr
      example_material_def)

subsection \<open>The loop\<close>

lemma then_do_assoc: "then_do (then_do m f) g = then_do m (\<lambda>v. then_do (f v) g)"
  by (cases m) (simp_all add: then_do_Inl then_do_Inr)

lemma then_do_eq_Inr: "then_do m f = Inr y \<longleftrightarrow> (\<exists>v. m = Inr v \<and> f v = Inr y)"
  by (cases m) (simp_all add: then_do_Inl then_do_Inr)

lemma append_obj_with_material:
  "append_obj materials yaml_dict obj new_obj =
     then_do (with_material materials obj new_obj)
       (\<lambda>w. Inr (yaml_dict\<lparr>yd_world := yd_world yaml_dict @ [w]\<rparr>))"
  by (simp add: append_obj_def with_material_def then_do_Inr then_do_assoc)

lemma loop_body_world_object:
  assumes "\<not> is_camera obj"
  shows "loop_body geometries materials yaml_dict obj =
     then_do (world_object geometries materials obj)
       (\<lambda>w. Inr (yaml_dict\<lparr>yd_world := yd_world yaml_dict @ [w]\<rparr>))"
proof (cases "node_name obj")
  case None
  then show ?thesis
    by (simp add: loop_body_def world_object_def subscript_def then_do_Inl)
next
  case (Some nm)
  with assms have "nm \<noteq> ''PerspectiveCamera''"
    by (simp add: is_camera_def)
  with Some show ?thesis
    by (simp add: loop_body_def world_object_def subscript_def then_do_Inr then_do_Inl
        then_do_assoc append_obj_with_material[abs_def])
qed

lemma loop_body_camera:
  assumes "is_camera obj"
  shows "loop_body geometries materials yaml_dict obj =
     then_do (set_camera (yd_camera yaml_dict) obj) (\<lambda>cam. Inr (yaml_dict\<lparr>yd_camera := cam\<rparr>))"
  using assms by (simp add: is_camera_def loop_body_def subscript_def then_do_Inr)

lemma originates_world_object:
  assumes "\<not> is_camera obj"
  shows "originates geometries materials obj w \<longleftrightarrow> world_object geometries materials obj = Inr w"
proof -
  have "default_yaml_dict\<lparr>yd_world := [v]\<rparr> = default_yaml_dict\<lparr>yd_world := [w]\<rparr> \<longleftrightarrow> v = w" for v
    by (simp add: default_yaml_dict_def)
  then show ?thesis
    using assms
    by (auto simp: originates_def loop_body_world_object then_do_eq_Inr default_yaml_dict_fields)
qed

lemma loop_world:
  "loop geometries materials yaml_dict objs = Inr out \<Longrightarrow>
   \<exists>ws. yd_world out = yd_world yaml_dict @ ws \<and>
     list_all2 (originates geometries materials) (filter (\<lambda>obj. \<not> is_camera obj) objs) ws"
proof (induction objs arbitrary: yaml_dict)
  case Nil
  then show ?case by simp
next
  case (Cons obj objs)
  from Cons.prems obtain yd where
    body: "loop_body geometries materials yaml_dict obj = Inr yd" and
    rest: "loop geometries materials yd objs = Inr out"
    by (auto simp: then_do_eq_Inr)
  from Cons.IH [OF rest] obtain ws where
    ws: "yd_world out = yd_world yd @ ws"
      "list_all2 (originates geometries materials) (filter (\<lambda>obj. \<not> is_camera obj) objs) ws"
    by blast
  show ?case
  proof (cases "is_camera obj")
    case True
    with body have "yd_world yd = yd_world yaml_dict"
      by (auto simp: loop_body_camera then_do_eq_Inr)
    with True ws show ?thesis by simp
  next
    case False
    with body obtain w where
      w: "world_object geometries materials obj = Inr w" and
      yd: "yd = yaml_dict\<lparr>yd_world := yd_world yaml_dict @ [w]\<rparr>"
      by (auto simp: loop_body_world_object then_do_eq_Inr)
    from w False have "originates geometries materials obj w"
      by (simp add: originates_world_object)
    with False ws yd show ?thesis by simp
  qed
qed

lemma keeps_defaults_default: "keeps_defaults default_camera"
  by (simp add: keeps_defaults_def)

lemma set_camera_independent:
  assumes "set_camera cam obj = Inr cam'" and "keeps_defaults cam"
  shows "set_camera default_camera obj = Inr cam' \<and> keeps_defaults cam'"
  using assms
  by (auto simp: set_camera_def then_do_eq_Inr keeps_defaults_def)

lemma loop_camera:
  "loop geometries materials yaml_dict objs = Inr out \<Longrightarrow> keeps_defaults (yd_camera yaml_dict) \<Longrightarrow>
   (filter is_camera objs = [] \<longrightarrow> yd_camera out = yd_camera yaml_dict) \<and>
   (filter is_camera objs \<noteq> [] \<longrightarrow>
      set_camera default_camera (last (filter is_camera objs)) = Inr (yd_camera out))"
proof (induction objs arbitrary: yaml_dict)
  case Nil
  then show ?case by simp
next
  case (Cons obj objs)
  from Cons.prems obtain yd where
    body: "loop_body geometries materials yaml_dict obj = Inr yd" and
    rest: "loop geometries materials yd objs = Inr out"
    by (auto simp: then_do_eq_Inr)
  show ?case
  proof (cases "is_camera obj")
    case True
    with body obtain cam where
      cam: "set_camera (yd_camera yaml_dict) obj = Inr cam" and yd: "yd_camera yd = cam"
      by (auto simp: loop_body_camera then_do_eq_Inr)
    from set_camera_independent [OF cam Cons.prems(2)]
    have indep: "set_camera default_camera obj = Inr cam" and keeps: "keeps_defaults cam"
      by simp_all
    from Cons.IH [OF rest] keeps yd
    have "(filter is_camera objs = [] \<longrightarrow> yd_camera out = cam) \<and>
      (filter is_camera objs \<noteq> [] \<longrightarrow>
         set_camera default_camera (last (filter is_camera objs)) = Inr (yd_camera out))"
      by simp
    with True indep show ?thesis
      by simp
  next
    case False
    with body have "yd_camera yd = yd_camera yaml_dict"
      by (auto simp: loop_body_world_object then_do_eq_Inr)
    with Cons.IH [OF rest] Cons.prems(2) False show ?thesis
      by simp
  qed
qed

lemma loop_append:
  "loop geometries materials yaml_dict (pre @ post) =
     then_do (loop geometries materials yaml_dict pre) (\<lambda>yd. loop geometries materials yd post)"
proof (induction pre arbitrary: yaml_dict)
  case Nil
  then show ?case by (simp add: then_do_Inr)
next
  case (Cons obj pre)
  then show ?case by (simp add: then_do_assoc)
qed

lemma convert_loop:
  assumes "jd_object json_dict = Some ob" and "obj_type ob = Some ''Scene''"
    and "obj_children ob = Some objs"
    and "jd_geometries json_dict = Some geoarr"
    and "index_geometries Map.empty geoarr = Inr geometries"
    and "jd_materials json_dict = Some matarr"
    and "index_materials Map.empty matarr = Inr materials"
  shows "convert_json_to_yaml json_dict = loop geometries materials default_yaml_dict objs"
  using assms by (simp add: convert_json_to_yaml_def not_a_scene_def subscript_def then_do_Inr)

lemma convert_success:
  assumes "convert_json_to_yaml json_dict = Inr out"
  obtains ob objs geoarr geometries matarr materials where
    "jd_object json_dict = Some ob" and "obj_type ob = Some ''Scene''"
    and "obj_children ob = Some objs"
    and "jd_geometries json_dict = Some geoarr"
    and "index_geometries Map.empty geoarr = Inr geometries"
    and "jd_materials json_dict = Some matarr"
    and "index_materials Map.empty matarr = Inr materials"
    and "loop geometries materials default_yaml_dict objs = Inr out"
  using assms
  by (auto simp: convert_json_to_yaml_def not_a_scene_def subscript_def then_do_eq_Inr
      split: if_splits option.splits)

lemma geometry_field_missing:
  "node_geometry obj = Some k \<Longrightarrow> geometries k = None \<Longrightarrow>
   geometry_field geometries obj field key = Inl (KeyError k)"
  by (simp add: geometry_field_def subscript_def lookup_def then_do_Inr then_do_Inl)

lemma shape_obj_missing_geometry:
  assumes "node_name obj \<in> {Some ''Sphere'', Some ''Plane'', Some ''Box''}"
    and "node_matrix obj \<noteq> None" and "node_geometry obj = Some k" and "geometries k = None"
  shows "shape_obj geometries obj = Inl (KeyError k)"
  using assms
  by (auto simp: shape_obj_def sphere_obj_def plane_obj_def box_obj_def subscript_def
      then_do_Inr then_do_Inl geometry_field_missing)

lemma shape_obj_no_material:
  assumes "shape_obj geometries obj = Inr w"
  shows "material w = None"
proof -
  have "material w = None" if "sphere_obj geometries obj = Inr w"
    using that by (auto simp: sphere_obj_def then_do_eq_Inr fresh_obj_def)
  moreover have "material w = None" if "plane_obj geometries obj = Inr w"
    using that by (auto simp: plane_obj_def then_do_eq_Inr fresh_obj_def)
  moreover have "material w = None" if "box_obj geometries obj = Inr w"
    using that by (auto simp: box_obj_def then_do_eq_Inr fresh_obj_def)
  ultimately show ?thesis
    using assms by (auto simp: shape_obj_def split: if_splits)
qed

lemma loop_body_shape_obj:
  assumes "node_name obj \<in> {Some ''Sphere'', Some ''Plane'', Some ''Box''}"
  shows "loop_body geometries materials yaml_dict obj =
    then_do (shape_obj geometries obj) (append_obj materials yaml_dict obj)"
  using assms by (auto simp: shape_obj_def loop_body_Sphere loop_body_Plane loop_body_Box)

lemma resolve_material_missing:
  "node_material obj = Some k \<Longrightarrow> materials k = None \<Longrightarrow>
   resolve_material materials obj = Inl (KeyError k)"
  by (simp add: resolve_material_def subscript_def lookup_def then_do_Inr then_do_Inl)

subsection \<open>The example scene\<close>

lemma camera_node_fields:
  "node_name (camera_node m fov focus) = Some ''PerspectiveCamera''"
  "node_matrix (camera_node m fov focus) = Some m"
  "node_fov (camera_node m fov focus) = Some fov"
  "node_focus (camera_node m fov focus) = Some focus"
  by (simp_all add: camera_node_def)

lemma light_node_fields:
  "node_name (light_node m i) = Some ''PointLight''"
  "node_matrix (light_node m i) = Some m"
  "node_intensity (light_node m i) = Some i"
  "node_material (light_node m i) = None"
  by (simp_all add: light_node_def)

lemma slice_transform:
  "slice (transform a b) 12 15 = [IntV 1, IntV 2, IntV 3]"
  "slice (transform a b) 8 11 = [IntV 0, IntV 0, IntV 1]"
  by (simp_all add: transform_def slice_def)

lemma sphere_obj_example:
  "sphere_obj [''g'' \<mapsto> example_geometry] (shape_node ''Sphere'' (transform a b)) =
     Inr (example_sphere\<lparr>material := None\<rparr>)"
  by (simp add: sphere_obj_def shape_node_fields geometry_field_def subscript_def lookup_def
      then_do_Inr example_geometry_def fresh_obj_def slice_transform example_sphere_def)

lemma loop_body_sphere_example:
  "loop_body [''g'' \<mapsto> example_geometry] [''m'' \<mapsto> example_material 16777215] yaml_dict
     (shape_node ''Sphere'' (transform a b)) =
   Inr (yaml_dict\<lparr>yd_world := yd_world yaml_dict @ [example_sphere]\<rparr>)"
  by (simp add: loop_body_Sphere shape_node_fields sphere_obj_example then_do_Inr append_obj_def
      resolve_example_material[OF color_white] example_sphere_def)

lemma loop_body_light_example:
  "loop_body geometries materials yaml_dict (light_node (transform a b) (IntV 2)) =
   Inr (yaml_dict\<lparr>yd_world := yd_world yaml_dict @ [example_light]\<rparr>)"
  by (simp add: loop_body_PointLight light_node_fields pointlight_obj_def subscript_def
      then_do_Inr append_obj_def fresh_obj_def slice_transform example_light_def)

lemma loop_body_camera_example:
  "loop_body geometries materials yaml_dict (camera_node (transform a b) fov focus) =
   Inr (yaml_dict\<lparr>yd_camera := (yd_camera yaml_dict)
     \<lparr>lookFrom := [1, 2, 3], lookAt := [0, 0, 1], vfov := py_float fov,
      focusDistance := py_float focus\<rparr>\<rparr>)"
  by (simp add: loop_body_Camera camera_node_fields set_camera_def subscript_def then_do_Inr
      slice_transform)

lemma convert_example_scene: "convert_json_to_yaml example_scene = Inr example_output"
  unfolding example_scene_def
  by (simp add: convert_scene[OF index_example_geometry index_example_material]
      loop_body_sphere_example loop_body_camera_example loop_body_light_example then_do_Inr
      default_yaml_dict_def example_output_def)

lemma slice_rotation_y_camera:
  "take 3 (drop 12 rotation_y_camera) = [IntV 4, IntV 5, IntV 6]"
  "take 3 (drop 8 rotation_y_camera) = [FloatV 0.6, IntV 0, FloatV 0.8]"
  by (simp_all add: rotation_y_camera_def)

lemma loop_body_last_camera:
  "loop_body geometries materials yaml_dict (camera_node rotation_y_camera fov focus) =
   Inr (yaml_dict\<lparr>yd_camera := (yd_camera yaml_dict)
     \<lparr>lookFrom := [4, 5, 6], lookAt := [0.6, 0, 0.8], vfov := py_float fov,
      focusDistance := py_float focus\<rparr>\<rparr>)"
  by (simp add: loop_body_Camera camera_node_fields set_camera_def subscript_def then_do_Inr
      slice_def slice_rotation_y_camera)

lemma convert_two_camera_scene:
  "convert_json_to_yaml two_camera_scene =
     Inr \<lparr>yd_constants = default_constants, yd_camera = last_camera_block,
          yd_world = [example_light]\<rparr>"
  unfolding two_camera_scene_def
  by (simp add: convert_scene loop_body_camera_example loop_body_last_camera
      loop_body_light_example then_do_Inr default_yaml_dict_def default_camera_def
      last_camera_block_def)

lemma is_camera_examples:
  "is_camera (camera_node m fov focus)" "\<not> is_camera (light_node m i)"
  "is_camera (shape_node nm m) \<longleftrightarrow> nm = ''PerspectiveCamera''"
  by (simp_all add: is_camera_def camera_node_fields light_node_fields shape_node_fields)

lemma scene_fields:
  "jd_object (scene geoarr matarr objs) = Some \<lparr>obj_type = Some ''Scene'', obj_children = Some objs\<rparr>"
  "jd_geometries (scene geoarr matarr objs) = Some geoarr"
  "jd_materials (scene geoarr matarr objs) = Some matarr"
  by (simp_all add: scene_def)

subsection \<open>Orientation of planes\<close>

lemma slice_rotations:
  "slice rotation_x_60 12 15 = [IntV 1, IntV 2, IntV 3]"
  "slice rotation_z_90 12 15 = [IntV 1, IntV 2, IntV 3]"
  by (simp_all add: rotation_x_60_def rotation_z_90_def slice_def)

lemma plane_angles_tilted: "plane_angles rotation_x_60 = Inr (acos_half_degrees, 0)"
  by (simp add: plane_angles_16 rotation_x_60_def then_do_Inr angle_of_half angle_of_one)

lemma branch_tilted: "plane_branch_of acos_half_degrees 0 = Some Branch2"
  using acos_half_bounds by (simp add: plane_branch_of_def)

lemma plane_angles_quarter_turn:
  "plane_angles rotation_z_90 = Inr (acos_zero_degrees, acos_zero_degrees)"
  by (simp add: plane_angles_16 rotation_z_90_def then_do_Inr angle_of_zero)

lemma plane_obj_quarter_turn:
  assumes "plane_objType acos_zero_degrees acos_zero_degrees = Inr t"
  shows "plane_obj [''g'' \<mapsto> example_geometry] (shape_node ''Plane'' rotation_z_90) =
    Inr \<lparr>objType = t, center = None, position = Some [IntV 1, IntV 2, IntV 3],
          radius = None, width = Some 4, height = Some 2.5, depth = None, material = None\<rparr>"
  using assms
  by (simp add: plane_obj_def shape_node_fields geometry_field_def subscript_def lookup_def
      then_do_Inr example_geometry_def fresh_obj_def plane_angles_quarter_turn slice_rotations)

lemma plane_obj_tilted:
  "plane_obj [''g'' \<mapsto> example_geometry] (shape_node ''Plane'' rotation_x_60) =
    Inr \<lparr>objType = ''XZRectangle'', center = None, position = Some [IntV 1, IntV 2, IntV 3],
          radius = None, width = Some 4, height = Some 2.5, depth = None, material = None\<rparr>"
proof -
  have "plane_objType acos_half_degrees 0 = Inr ''XZRectangle''"
    by (simp add: plane_objType_def branch_tilted)
  then show ?thesis
    by (simp add: plane_obj_def shape_node_fields geometry_field_def subscript_def lookup_def
      then_do_Inr example_geometry_def fresh_obj_def plane_angles_tilted slice_rotations)
qed

text \<open>
  Claim C1. The claim says that a Plane node whose angles match none of the three
  orientations within 0.01 degrees is rejected, a roll of 45 with a pitch of 0 for one.
  The second test of the source is \<^verbatim>\<open>roll - 90.0 <= 0.01\<close>, without an absolute value,
  so a roll of 45 with a pitch of 0 is classified as \<open>XZRectangle\<close>; and a document whose
  only node is a Plane turned by 60 degrees about the X axis (entry \<open>m[1][1] = 1/2\<close>)
  converts, to an \<open>XZRectangle\<close>, instead of failing.
\<close>

theorem plane_rotation_not_rejected:
  "plane_objType 45 0 = Inr ''XZRectangle'' \<and>
   convert_json_to_yaml
     (scene [example_geometry] [example_material 16777215]
        [shape_node ''Plane'' rotation_x_60]) =
   Inr (default_yaml_dict
     \<lparr>yd_world :=
        [\<lparr>objType = ''XZRectangle'', center = None, position = Some [IntV 1, IntV 2, IntV 3],
          radius = None, width = Some 4, height = Some 2.5, depth = None,
          material = Some \<lparr>matType = ''Lambertian'', texType = ''SolidColor'',
                            albedo = [1, 1, 1], intensity = None\<rparr>\<rparr>]\<rparr>)"
proof
  show "plane_objType 45 0 = Inr ''XZRectangle''"
    by (simp add: plane_objType_def plane_branch_of_def)
next
  show "convert_json_to_yaml
     (scene [example_geometry] [example_material 16777215]
        [shape_node ''Plane'' rotation_x_60]) =
   Inr (default_yaml_dict
     \<lparr>yd_world :=
        [\<lparr>objType = ''XZRectangle'', center = None, position = Some [IntV 1, IntV 2, IntV 3],
          radius = None, width = Some 4, height = Some 2.5, depth = None,
          material = Some \<lparr>matType = ''Lambertian'', texType = ''SolidColor'',
                            albedo = [1, 1, 1], intensity = None\<rparr>\<rparr>]\<rparr>)"
    by (simp add: convert_scene[OF index_example_geometry index_example_material]
      loop_body_Plane shape_node_fields plane_obj_tilted then_do_Inr append_obj_def
      default_yaml_dict_fields
      resolve_example_material[OF color_white])
qed

subsection \<open>Colours\<close>

text \<open>
  Claim C2. The packed colour \<open>0xFFFFFF\<close> resolves to the albedo \<open>[1, 1, 1]\<close>. The
  packed colour \<open>0x000000\<close> does not resolve to \<open>[0, 0, 0]\<close>: \<^verbatim>\<open>hex(0)[2:]\<close> is the
  one character \<^verbatim>\<open>0\<close>, a third of its length is zero, and \<^verbatim>\<open>range\<close> raises on a
  step of zero; the conversion of a scene with one black sphere ends with that error.
\<close>

theorem packed_black_raises:
  "color_albedo 16777215 = Inr [1, 1, 1] \<and>
   color_albedo 0 = Inl (ValueError ''range() arg 3 must not be zero'') \<and>
   convert_json_to_yaml
     (scene [example_geometry] [example_material 0] [shape_node ''Sphere'' (transform 1 1)]) =
   Inl (ValueError ''range() arg 3 must not be zero'')"
proof -
  have "sphere_obj [''g'' \<mapsto> example_geometry] (shape_node ''Sphere'' (transform 1 1)) =
    Inr \<lparr>objType = ''Sphere'', center = Some [1, 2, 3], position = None,
          radius = Some 2, width = None, height = None, depth = None, material = None\<rparr>"
    by (simp add: sphere_obj_def shape_node_fields geometry_field_def subscript_def lookup_def
      then_do_Inr example_geometry_def fresh_obj_def transform_def slice_def)
  then have "convert_json_to_yaml
     (scene [example_geometry] [example_material 0] [shape_node ''Sphere'' (transform 1 1)]) =
   Inl (ValueError ''range() arg 3 must not be zero'')"
    by (simp add: convert_scene[OF index_example_geometry index_example_material]
      loop_body_Sphere shape_node_fields then_do_Inr then_do_Inl append_obj_def
      resolve_example_material[OF color_black])
  then show ?thesis
    using color_white color_black by simp
qed

subsection \<open>The fourth orientation test\<close>

text \<open>
  Claim C3, as it is stated, fails: a roll and a pitch of 90 pass the first three tests
  and take the fourth branch, and so does the matrix of a Plane turned by a quarter turn
  about the Z axis (entries \<open>m[0][0] = m[1][1] = 0\<close>).
\<close>

theorem fourth_branch_taken:
  "plane_branch_of 90 90 = Some Branch4 \<and>
   matrix_branch rotation_z_90 = Inr (Some Branch4)"
proof
  show "plane_branch_of 90 90 = Some Branch4"
    by (simp add: plane_branch_of_def)
next
  have "plane_branch_of acos_zero_degrees acos_zero_degrees = Some Branch4"
    using acos_zero_bounds by (simp add: plane_branch_of_def)
  then show "matrix_branch rotation_z_90 = Inr (Some Branch4)"
    by (simp add: matrix_branch_def plane_angles_quarter_turn then_do_Inr)
qed

text \<open>
  Claim C3, amended. The fourth branch is reachable: every pair of angles whose roll and
  pitch are both within 0.01 of 90 is consumed by none of the three earlier branches and
  takes the fourth one, which yields \<open>YZRectangle\<close>.
\<close>

theorem fourth_branch_reached:
  assumes "\<bar>roll - 90\<bar> \<le> 0.01" and "\<bar>pitch - 90\<bar> \<le> 0.01"
  shows "plane_branch_of roll pitch = Some Branch4 \<and>
    plane_objType roll pitch = Inr ''YZRectangle''"
proof -
  from assms have "\<bar>roll - 90\<bar> \<le> 1 / 100" and "\<bar>pitch - 90\<bar> \<le> 1 / 100"
    by simp_all
  then have "1 / 100 < roll" "roll - 90 \<le> 1 / 100" "1 / 100 < pitch" "pitch - 90 \<le> 1 / 100"
    by linarith+
  then have "plane_branch_of roll pitch = Some Branch4"
    by (simp add: plane_branch_of_def)
  then show ?thesis
    by (simp add: plane_objType_def)
qed

text \<open>
  The theorem at the angles 89.995 and 90.002, and at the angles of the quarter turn
  about the Z axis: a scene with that Plane converts to a \<open>YZRectangle\<close>.
\<close>

theorem fourth_branch_reached_witness:
  "\<bar>(89.995::real) - 90\<bar> \<le> 0.01 \<and> \<bar>(90.002::real) - 90\<bar> \<le> 0.01 \<and>
   plane_branch_of 89.995 90.002 = Some Branch4 \<and>
   plane_objType 89.995 90.002 = Inr ''YZRectangle'' \<and>
   \<bar>acos_zero_degrees - 90\<bar> \<le> 0.01 \<and>
   plane_angles rotation_z_90 = Inr (acos_zero_degrees, acos_zero_degrees) \<and>
   plane_branch_of acos_zero_degrees acos_zero_degrees = Some Branch4 \<and>
   convert_json_to_yaml
     (scene [example_geometry] [example_material 16777215]
        [shape_node ''Plane'' rotation_z_90]) =
   Inr (default_yaml_dict
     \<lparr>yd_world :=
        [\<lparr>objType = ''YZRectangle'', center = None, position = Some [IntV 1, IntV 2, IntV 3],
          radius = None, width = Some 4, height = Some 2.5, depth = None,
          material = Some \<lparr>matType = ''Lambertian'', texType = ''SolidColor'',
                            albedo = [1, 1, 1], intensity = None\<rparr>\<rparr>]\<rparr>)"
proof -
  have "8999 / 100 < acos_zero_degrees" and "acos_zero_degrees < 9001 / 100"
    using acos_zero_bounds by simp_all
  then have "\<bar>acos_zero_degrees - 90\<bar> \<le> 1 / 100"
    by linarith
  then have near: "\<bar>acos_zero_degrees - 90\<bar> \<le> 0.01"
    by simp
  note quarter = fourth_branch_reached [OF near near]
  have "convert_json_to_yaml
     (scene [example_geometry] [example_material 16777215]
        [shape_node ''Plane'' rotation_z_90]) =
   Inr (default_yaml_dict
     \<lparr>yd_world :=
        [\<lparr>objType = ''YZRectangle'', center = None, position = Some [IntV 1, IntV 2, IntV 3],
          radius = None, width = Some 4, height = Some 2.5, depth = None,
          material = Some \<lparr>matType = ''Lambertian'', texType = ''SolidColor'',
                            albedo = [1, 1, 1], intensity = None\<rparr>\<rparr>]\<rparr>)"
    using quarter
    by (simp add: convert_scene[OF index_example_geometry index_example_material]
        loop_body_Plane shape_node_fields plane_obj_quarter_turn then_do_Inr append_obj_def
        default_yaml_dict_fields resolve_example_material[OF color_white])
  with near quarter fourth_branch_reached [of "89.995" "90.002"] show ?thesis
    by (simp add: plane_angles_quarter_turn)
qed

subsection \<open>Documents that are not scenes\<close>

text \<open>
  Claim C8. A dictionary without the field \<open>object\<close>, or whose \<open>object\<close> has no field
  \<open>type\<close>, or whose type is not \<open>Scene\<close>, is refused with the error of line 18,
  whatever its geometries, materials and children are: none of them is looked at.
\<close>

theorem not_a_scene_raises:
  "jd_object json_dict = None \<or>
   (\<exists>ob. jd_object json_dict = Some ob \<and> obj_type ob = None) \<or>
   (\<exists>ob t. jd_object json_dict = Some ob \<and> obj_type ob = Some t \<and> t \<noteq> ''Scene'') \<Longrightarrow>
   convert_json_to_yaml json_dict = Inl (ValueError ''JSON file is not a Three.JS JSON Scene file.'')"
  by (auto simp: convert_json_to_yaml_def not_a_scene_def)

theorem not_a_scene_raises_witness:
  "jd_object \<lparr>jd_object = None, jd_geometries = None, jd_materials = None\<rparr> = None \<and>
   convert_json_to_yaml \<lparr>jd_object = None, jd_geometries = None, jd_materials = None\<rparr> =
     Inl (ValueError ''JSON file is not a Three.JS JSON Scene file.'') \<and>
   convert_json_to_yaml
     \<lparr>jd_object = Some \<lparr>obj_type = None, obj_children = Some [shape_node ''Sphere'' []]\<rparr>,
      jd_geometries = Some [], jd_materials = Some []\<rparr> =
     Inl (ValueError ''JSON file is not a Three.JS JSON Scene file.'') \<and>
   convert_json_to_yaml
     \<lparr>jd_object = Some \<lparr>obj_type = Some ''Group'', obj_children = Some [shape_node ''Cone'' []]\<rparr>,
      jd_geometries = Some [], jd_materials = Some []\<rparr> =
     Inl (ValueError ''JSON file is not a Three.JS JSON Scene file.'')"
  using
    not_a_scene_raises [of "\<lparr>jd_object = None, jd_geometries = None, jd_materials = None\<rparr>"]
    not_a_scene_raises [of
      "\<lparr>jd_object = Some \<lparr>obj_type = None, obj_children = Some [shape_node ''Sphere'' []]\<rparr>,
        jd_geometries = Some [], jd_materials = Some []\<rparr>"]
    not_a_scene_raises [of
      "\<lparr>jd_object = Some \<lparr>obj_type = Some ''Group'', obj_children = Some [shape_node ''Cone'' []]\<rparr>,
        jd_geometries = Some [], jd_materials = Some []\<rparr>"]
  by simp

subsection \<open>The domain of the arc cosine\<close>

text \<open>
  Claim C10. For a Plane node whose geometry resolves and whose matrix has 16 entries,
  the two angles are computed when both \<open>m[1][1]\<close> and \<open>m[0][0]\<close> lie in \<open>[-1, 1]\<close>;
  when one of them lies outside, the node fails with the domain error of
  \<^verbatim>\<open>math.acos\<close>, not with the error of an invalid rotation.
\<close>

theorem acos_domain_error:
  assumes "node_matrix obj = Some m" and "length m = 16"
    and "geometry_field geometries obj geo_width ''width'' = Inr w"
    and "geometry_field geometries obj geo_height ''height'' = Inr h"
  shows "if \<bar>py_float (m ! 5)\<bar> \<le> 1 \<and> \<bar>py_float (m ! 0)\<bar> \<le> 1
         then \<exists>roll pitch. plane_angles m = Inr (roll, pitch)
         else plane_obj geometries obj = Inl (ValueError ''math domain error'')"
proof (cases "\<bar>py_float (m ! 5)\<bar> \<le> 1 \<and> \<bar>py_float (m ! 0)\<bar> \<le> 1")
  case True
  then show ?thesis
    using assms(2) by (simp add: plane_angles_16 angle_of_inside then_do_Inr abs_le_iff)
next
  case False
  have "plane_angles m = Inl (ValueError ''math domain error'')"
  proof (cases "\<bar>py_float (m ! 5)\<bar> \<le> 1")
    case True
    with False have "py_float (m ! 0) < - 1 \<or> 1 < py_float (m ! 0)"
      by auto
    with True show ?thesis
      using assms(2)
      by (simp add: plane_angles_16 angle_of_inside angle_of_outside then_do_Inr then_do_Inl
          abs_le_iff)
  next
    case False
    then have "py_float (m ! 5) < - 1 \<or> 1 < py_float (m ! 5)"
      by auto
    then show ?thesis
      using assms(2) by (simp add: plane_angles_16 angle_of_outside then_do_Inl)
  qed
  with False show ?thesis
    using assms by (simp add: plane_obj_def subscript_def then_do_Inr then_do_Inl)
qed

theorem acos_domain_error_witness:
  "plane_obj [''g'' \<mapsto> example_geometry] (shape_node ''Plane'' (transform 1 2)) =
     Inl (ValueError ''math domain error'') \<and>
   convert_json_to_yaml
     (scene [example_geometry] [example_material 16777215]
        [shape_node ''Plane'' (transform 1 2)]) =
     Inl (ValueError ''math domain error'')"
proof -
  have "plane_obj [''g'' \<mapsto> example_geometry] (shape_node ''Plane'' (transform 1 2)) =
     Inl (ValueError ''math domain error'')"
    using acos_domain_error [of "shape_node ''Plane'' (transform 1 2)" "transform 1 2"
        "[''g'' \<mapsto> example_geometry]" 4 "5 / 2"]
    by (simp add: shape_node_fields geometry_field_def subscript_def lookup_def then_do_Inr
        example_geometry_def transform_def)
  then show ?thesis
    by (simp add: convert_scene[OF index_example_geometry index_example_material]
        loop_body_Plane shape_node_fields then_do_Inl)
qed

subsection \<open>The world sequence\<close>

text \<open>
  Claim C4. When the conversion succeeds, the world sequence has as many objects as
  the scene has children that are not cameras, that is the number of children minus the
  number of camera nodes, and its objects are, in the order of the input, the objects
  that the body of the loop appends for those children.
\<close>

theorem world_length_and_order:
  assumes "convert_json_to_yaml json_dict = Inr out"
    and "jd_object json_dict = Some ob" and "obj_children ob = Some objs"
    and "jd_geometries json_dict = Some geoarr"
    and "index_geometries Map.empty geoarr = Inr geometries"
    and "jd_materials json_dict = Some matarr"
    and "index_materials Map.empty matarr = Inr materials"
  shows "length (yd_world out) = length objs - length (filter is_camera objs) \<and>
    list_all2 (originates geometries materials) (filter (\<lambda>obj. \<not> is_camera obj) objs) (yd_world out)"
proof -
  from assms have "loop geometries materials default_yaml_dict objs = Inr out"
    by (auto elim!: convert_success)
  from loop_world [OF this]
  have order: "list_all2 (originates geometries materials)
      (filter (\<lambda>obj. \<not> is_camera obj) objs) (yd_world out)"
    by (simp add: default_yaml_dict_fields)
  then have "length (yd_world out) = length (filter (\<lambda>obj. \<not> is_camera obj) objs)"
    by (simp add: list_all2_lengthD)
  moreover have "length (filter (\<lambda>obj. \<not> is_camera obj) objs) =
      length objs - length (filter is_camera objs)"
    using sum_length_filter_compl [of is_camera objs] by simp
  ultimately show ?thesis
    using order by simp
qed

theorem world_length_and_order_witness:
  "convert_json_to_yaml example_scene = Inr example_output \<and>
   length (yd_world example_output) = 4 - 2 \<and>
   yd_world example_output = [example_sphere, example_light] \<and>
   originates [''g'' \<mapsto> example_geometry] [''m'' \<mapsto> example_material 16777215]
     (shape_node ''Sphere'' (transform 1 1)) example_sphere \<and>
   originates [''g'' \<mapsto> example_geometry] [''m'' \<mapsto> example_material 16777215]
     (light_node (transform 1 1) (IntV 2)) example_light"
proof -
  have ob: "jd_object example_scene = Some \<lparr>obj_type = Some ''Scene'', obj_children = Some
       [shape_node ''Sphere'' (transform 1 1),
        camera_node (transform 1 1) (IntV 50) (IntV 10),
        light_node (transform 1 1) (IntV 2),
        camera_node (transform 1 1) (IntV 40) (FloatV 2.5)]\<rparr>"
    and geo: "jd_geometries example_scene = Some [example_geometry]"
    and mat: "jd_materials example_scene = Some [example_material 16777215]"
    by (simp_all add: example_scene_def scene_fields)
  from world_length_and_order [OF convert_example_scene ob _ geo index_example_geometry mat
      index_example_material]
  show ?thesis
    by (simp add: convert_example_scene is_camera_examples example_output_def)
qed

subsection \<open>Spheres\<close>

text \<open>
  Claim C5. For a Sphere node with a matrix of 16 entries whose geometry reference
  resolves to a record with a radius, the object that the loop appends is a Sphere
  whose center is the float cast of the entries 12, 13 and 14 of the matrix and whose
  radius is the float cast of the radius of the geometry.
\<close>

theorem sphere_center_radius:
  assumes "node_name obj = Some ''Sphere''"
    and "node_matrix obj = Some m" and "length m = 16"
    and "node_geometry obj = Some gid" and "geometries gid = Some g" and "geo_radius g = Some r"
    and "loop_body geometries materials yaml_dict obj = Inr yaml_dict'"
  shows "\<exists>w. yd_world yaml_dict' = yd_world yaml_dict @ [w] \<and> objType w = ''Sphere'' \<and>
    center w = Some [py_float (m ! 12), py_float (m ! 13), py_float (m ! 14)] \<and>
    radius w = Some (py_float r)"
proof -
  have "slice m 12 15 = [m ! 12, m ! 13, m ! 14]"
    using assms(3) by (simp add: slice_def list_eq_iff_nth_eq nth_Cons split: nat.splits)
  with assms(2,4-6) have
    "sphere_obj geometries obj =
       Inr ((fresh_obj ''Sphere'')
         \<lparr>center := Some [py_float (m ! 12), py_float (m ! 13), py_float (m ! 14)],
          radius := Some (py_float r)\<rparr>)"
    by (simp add: sphere_obj_def geometry_field_def subscript_def lookup_def then_do_Inr)
  with assms(1,7) show ?thesis
    by (auto simp: loop_body_Sphere then_do_Inr append_obj_def fresh_obj_def then_do_eq_Inr)
qed

theorem sphere_center_radius_witness:
  "loop_body [''g'' \<mapsto> example_geometry] [''m'' \<mapsto> example_material 16777215] default_yaml_dict
     (shape_node ''Sphere'' (transform 1 1)) = Inr (default_yaml_dict\<lparr>yd_world := [example_sphere]\<rparr>) \<and>
   objType example_sphere = ''Sphere'' \<and> center example_sphere = Some [1, 2, 3] \<and>
   radius example_sphere = Some 2"
proof -
  have run: "loop_body [''g'' \<mapsto> example_geometry] [''m'' \<mapsto> example_material 16777215]
      default_yaml_dict (shape_node ''Sphere'' (transform 1 1)) =
      Inr (default_yaml_dict\<lparr>yd_world := [example_sphere]\<rparr>)"
    by (simp add: loop_body_sphere_example default_yaml_dict_fields)
  from sphere_center_radius [of "shape_node ''Sphere'' (transform 1 1)" "transform 1 1" "''g''"
      "[''g'' \<mapsto> example_geometry]" example_geometry "IntV 2", OF _ _ _ _ _ _ run]
  have "\<exists>w. [example_sphere] = [w] \<and> objType w = ''Sphere'' \<and> center w = Some [1, 2, 3] \<and>
      radius w = Some 2"
    by (simp add: shape_node_fields transform_def example_geometry_def default_yaml_dict_fields)
  with run show ?thesis
    by auto
qed

subsection \<open>Point lights\<close>

text \<open>
  Claim C6. A PointLight node adds exactly one object: a Sphere of radius 1 at the
  translation of the node, with a DiffuseLight material of albedo \<open>[1, 1, 1]\<close> and of
  ten times the intensity of the node. This holds for every material index and every
  material reference of the node, also an absent one: neither is read.
\<close>

theorem pointlight_sphere:
  assumes "node_name obj = Some ''PointLight''"
    and "node_matrix obj = Some m" and "node_intensity obj = Some i"
  shows "loop_body geometries materials yaml_dict obj =
    Inr (yaml_dict\<lparr>yd_world := yd_world yaml_dict @
      [\<lparr>objType = ''Sphere'', center = Some (map py_float (slice m 12 15)), position = None,
        radius = Some 1, width = None, height = None, depth = None,
        material = Some \<lparr>matType = ''DiffuseLight'', texType = ''SolidColor'',
                          albedo = [1, 1, 1], intensity = Some (py_float i * 10)\<rparr>\<rparr>]\<rparr>)"
  using assms
  by (simp add: loop_body_PointLight pointlight_obj_def subscript_def then_do_Inr append_obj_def
      fresh_obj_def)

theorem pointlight_sphere_witness:
  "node_material (light_node (transform 1 1) (IntV 2)) = None \<and>
   loop_body Map.empty Map.empty default_yaml_dict (light_node (transform 1 1) (IntV 2)) =
     Inr (default_yaml_dict\<lparr>yd_world := [example_light]\<rparr>) \<and>
   radius example_light = Some 1 \<and>
   material example_light = Some \<lparr>matType = ''DiffuseLight'', texType = ''SolidColor'',
     albedo = [1, 1, 1], intensity = Some (2 * 10)\<rparr>"
  using pointlight_sphere [of "light_node (transform 1 1) (IntV 2)" "transform 1 1" "IntV 2"
      Map.empty Map.empty default_yaml_dict]
  by (simp add: light_node_fields slice_transform default_yaml_dict_fields example_light_def)

subsection \<open>The camera\<close>

text \<open>
  Claim C7. The output has one camera block. When the conversion succeeds and the scene
  has no camera node, the block is the default one. When it has camera nodes, the last
  of them has a matrix \<open>m\<close>, a field of view and a focus distance, and the block has
  \<open>lookFrom\<close> equal to the float casts of \<open>m[12:15]\<close>, \<open>lookAt\<close> equal to the float
  casts of \<open>m[8:11]\<close>, \<open>vfov\<close> and \<open>focusDistance\<close> equal to the float casts of that
  field of view and focus distance, and the default \<open>vup\<close>, \<open>aspectRatio\<close> and
  \<open>aperture\<close>; no earlier camera node leaves a trace. Camera nodes add nothing to the
  world: it has as many objects as there are other children.
\<close>

theorem camera_of_last_camera_node:
  assumes "convert_json_to_yaml json_dict = Inr out"
    and "jd_object json_dict = Some ob" and "obj_children ob = Some objs"
  shows "(filter is_camera objs = [] \<longrightarrow>
       yd_camera out =
         \<lparr>lookFrom = [0, 0, 0], lookAt = [0, 0, 0], vup = [0, 1, 0], vfov = 90,
          aspectRatio = 1, aperture = 0.1, focusDistance = 10\<rparr>) \<and>
    (filter is_camera objs \<noteq> [] \<longrightarrow>
       (\<exists>m fov focus.
          node_matrix (last (filter is_camera objs)) = Some m \<and>
          node_fov (last (filter is_camera objs)) = Some fov \<and>
          node_focus (last (filter is_camera objs)) = Some focus \<and>
          yd_camera out =
            \<lparr>lookFrom = map py_float (take 3 (drop 12 m)),
             lookAt = map py_float (take 3 (drop 8 m)),
             vup = [0, 1, 0], vfov = py_float fov, aspectRatio = 1, aperture = 0.1,
             focusDistance = py_float focus\<rparr>)) \<and>
    length (yd_world out) = length (filter (\<lambda>obj. \<not> is_camera obj) objs)"
proof -
  from assms obtain geometries materials where
    run: "loop geometries materials default_yaml_dict objs = Inr out"
    by (auto elim!: convert_success)
  from loop_camera [OF run] have
    none: "filter is_camera objs = [] \<longrightarrow> yd_camera out = default_camera" and
    some: "filter is_camera objs \<noteq> [] \<longrightarrow>
       set_camera default_camera (last (filter is_camera objs)) = Inr (yd_camera out)"
    by (simp_all add: default_yaml_dict_fields keeps_defaults_default)
  have "\<exists>m fov focus. node_matrix c = Some m \<and> node_fov c = Some fov \<and> node_focus c = Some focus \<and>
      cam =
        \<lparr>lookFrom = map py_float (take 3 (drop 12 m)),
         lookAt = map py_float (take 3 (drop 8 m)),
         vup = [0, 1, 0], vfov = py_float fov, aspectRatio = 1, aperture = 0.1,
         focusDistance = py_float focus\<rparr>"
    if "set_camera default_camera c = Inr cam" for c cam
    using that
    by (auto simp: set_camera_def then_do_eq_Inr subscript_def slice_def default_camera_def
        split: option.splits)
  with some have
    "filter is_camera objs \<noteq> [] \<longrightarrow>
       (\<exists>m fov focus.
          node_matrix (last (filter is_camera objs)) = Some m \<and>
          node_fov (last (filter is_camera objs)) = Some fov \<and>
          node_focus (last (filter is_camera objs)) = Some focus \<and>
          yd_camera out =
            \<lparr>lookFrom = map py_float (take 3 (drop 12 m)),
             lookAt = map py_float (take 3 (drop 8 m)),
             vup = [0, 1, 0], vfov = py_float fov, aspectRatio = 1, aperture = 0.1,
             focusDistance = py_float focus\<rparr>)"
    by blast
  moreover from none have "filter is_camera objs = [] \<longrightarrow>
       yd_camera out =
         \<lparr>lookFrom = [0, 0, 0], lookAt = [0, 0, 0], vup = [0, 1, 0], vfov = 90,
          aspectRatio = 1, aperture = 0.1, focusDistance = 10\<rparr>"
    by (simp add: default_camera_def)
  moreover from loop_world [OF run]
  have "length (yd_world out) = length (filter (\<lambda>obj. \<not> is_camera obj) objs)"
    by (auto simp: default_yaml_dict_fields dest: list_all2_lengthD)
  ultimately show ?thesis
    by blast
qed

text \<open>
  The theorem at three scenes: one whose two cameras differ in every field, where the
  block is that of the second camera and the first one, at \<open>(1, 2, 3)\<close> with a field of
  view of 50, leaves no trace; the example scene; and a scene without a camera.
\<close>

theorem camera_of_last_camera_node_witness:
  "convert_json_to_yaml two_camera_scene =
     Inr \<lparr>yd_constants = default_constants, yd_camera = last_camera_block,
          yd_world = [example_light]\<rparr> \<and>
   lookFrom last_camera_block = [4, 5, 6] \<and> lookAt last_camera_block = [0.6, 0, 0.8] \<and>
   vfov last_camera_block = 40 \<and> focusDistance last_camera_block = 2.5 \<and>
   vup last_camera_block = [0, 1, 0] \<and> aspectRatio last_camera_block = 1 \<and>
   aperture last_camera_block = 0.1 \<and>
   convert_json_to_yaml example_scene = Inr example_output \<and>
   lookFrom (yd_camera example_output) = [1, 2, 3] \<and>
   lookAt (yd_camera example_output) = [0, 0, 1] \<and>
   vfov (yd_camera example_output) = 40 \<and> focusDistance (yd_camera example_output) = 2.5 \<and>
   length (yd_world example_output) = 2 \<and>
   convert_json_to_yaml (scene [] [] [light_node (transform 1 1) (IntV 2)]) =
     Inr (default_yaml_dict\<lparr>yd_world := [example_light]\<rparr>) \<and>
   yd_camera (default_yaml_dict\<lparr>yd_world := [example_light]\<rparr>) = default_camera"
proof -
  have ob: "jd_object example_scene = Some \<lparr>obj_type = Some ''Scene'', obj_children = Some
       [shape_node ''Sphere'' (transform 1 1),
        camera_node (transform 1 1) (IntV 50) (IntV 10),
        light_node (transform 1 1) (IntV 2),
        camera_node (transform 1 1) (IntV 40) (FloatV 2.5)]\<rparr>"
    by (simp add: example_scene_def scene_fields)
  have two: "jd_object two_camera_scene = Some \<lparr>obj_type = Some ''Scene'', obj_children = Some
       [camera_node (transform 1 1) (IntV 50) (IntV 10),
        light_node (transform 1 1) (IntV 2),
        camera_node rotation_y_camera (IntV 40) (FloatV 2.5)]\<rparr>"
    by (simp add: two_camera_scene_def scene_fields)
  have dark: "convert_json_to_yaml (scene [] [] [light_node (transform 1 1) (IntV 2)]) =
      Inr (default_yaml_dict\<lparr>yd_world := [example_light]\<rparr>)"
    by (simp add: convert_scene loop_body_light_example then_do_Inr default_yaml_dict_fields)
  from camera_of_last_camera_node [OF convert_two_camera_scene two]
    camera_of_last_camera_node [OF convert_example_scene ob]
    camera_of_last_camera_node [OF dark scene_fields(1)]
  show ?thesis
    by (simp add: convert_two_camera_scene convert_example_scene dark is_camera_examples
        example_output_def last_camera_block_def default_yaml_dict_fields default_camera_def)
qed

subsection \<open>References that do not resolve\<close>

text \<open>
  Claim C9. Let the loop reach a Sphere, Plane or Box node, all children before it being
  translated. When the geometry id of the node is not in the geometry index, or when
  the object of the node is built and its material id is not in the material index,
  the conversion fails with the \<^verbatim>\<open>KeyError\<close> of that id; nothing is put in its place.
\<close>

theorem unresolved_reference_raises:
  assumes "jd_object json_dict = Some ob" and "obj_type ob = Some ''Scene''"
    and "obj_children ob = Some (pre @ obj # post)"
    and "jd_geometries json_dict = Some geoarr"
    and "index_geometries Map.empty geoarr = Inr geometries"
    and "jd_materials json_dict = Some matarr"
    and "index_materials Map.empty matarr = Inr materials"
    and reached: "loop geometries materials default_yaml_dict pre = Inr yaml_dict"
    and shape: "node_name obj \<in> {Some ''Sphere'', Some ''Plane'', Some ''Box''}"
    and missing:
      "(node_matrix obj \<noteq> None \<and> node_geometry obj = Some k \<and> geometries k = None) \<or>
       ((\<exists>w. shape_obj geometries obj = Inr w) \<and> node_material obj = Some k \<and> materials k = None)"
  shows "convert_json_to_yaml json_dict = Inl (KeyError k)"
proof -
  have "loop_body geometries materials yaml_dict obj = Inl (KeyError k)"
    using missing
  proof
    assume "node_matrix obj \<noteq> None \<and> node_geometry obj = Some k \<and> geometries k = None"
    with shape have "shape_obj geometries obj = Inl (KeyError k)"
      by (simp add: shape_obj_missing_geometry)
    with shape show ?thesis
      by (simp add: loop_body_shape_obj then_do_Inl)
  next
    assume m: "(\<exists>w. shape_obj geometries obj = Inr w) \<and> node_material obj = Some k \<and> materials k = None"
    then obtain w where w: "shape_obj geometries obj = Inr w"
      by blast
    then have "material w = None"
      by (rule shape_obj_no_material)
    with m have "append_obj materials yaml_dict obj w = Inl (KeyError k)"
      by (simp add: append_obj_def resolve_material_missing then_do_Inl)
    with shape w show ?thesis
      by (simp add: loop_body_shape_obj then_do_Inr)
  qed
  with reached have "loop geometries materials default_yaml_dict (pre @ obj # post) = Inl (KeyError k)"
    by (simp add: loop_append then_do_Inr then_do_Inl)
  with assms(1-7) show ?thesis
    by (simp add: convert_loop)
qed

theorem unresolved_reference_raises_witness:
  "convert_json_to_yaml
     (scene [] [example_material 16777215]
        [light_node (transform 1 1) (IntV 2), shape_node ''Plane'' (transform 1 1)]) =
     Inl (KeyError ''g'') \<and>
   convert_json_to_yaml
     (scene [example_geometry] []
        [light_node (transform 1 1) (IntV 2), shape_node ''Sphere'' (transform 1 1)]) =
     Inl (KeyError ''m'')"
proof
  have reached: "loop Map.empty [''m'' \<mapsto> example_material 16777215] default_yaml_dict
      [light_node (transform 1 1) (IntV 2)] = Inr (default_yaml_dict\<lparr>yd_world := [example_light]\<rparr>)"
    by (simp add: loop_body_light_example then_do_Inr default_yaml_dict_fields)
  show "convert_json_to_yaml
     (scene [] [example_material 16777215]
        [light_node (transform 1 1) (IntV 2), shape_node ''Plane'' (transform 1 1)]) =
     Inl (KeyError ''g'')"
    using unresolved_reference_raises [where pre = "[light_node (transform 1 1) (IntV 2)]"
        and obj = "shape_node ''Plane'' (transform 1 1)" and post = "[]" and k = "''g''",
        OF scene_fields(1) _ _ scene_fields(2) _ scene_fields(3) index_example_material reached]
    by (simp add: shape_node_fields)
next
  have reached: "loop [''g'' \<mapsto> example_geometry] Map.empty default_yaml_dict
      [light_node (transform 1 1) (IntV 2)] = Inr (default_yaml_dict\<lparr>yd_world := [example_light]\<rparr>)"
    by (simp add: loop_body_light_example then_do_Inr default_yaml_dict_fields)
  have built: "shape_obj [''g'' \<mapsto> example_geometry] (shape_node ''Sphere'' (transform 1 1)) =
      Inr (example_sphere\<lparr>material := None\<rparr>)"
    by (simp add: shape_obj_def shape_node_fields sphere_obj_example)
  show "convert_json_to_yaml
     (scene [example_geometry] []
        [light_node (transform 1 1) (IntV 2), shape_node ''Sphere'' (transform 1 1)]) =
     Inl (KeyError ''m'')"
    using unresolved_reference_raises [where pre = "[light_node (transform 1 1) (IntV 2)]"
        and obj = "shape_node ''Sphere'' (transform 1 1)" and post = "[]" and k = "''m''",
        OF scene_fields(1) _ _ scene_fields(2) index_example_geometry scene_fields(3) _ reached]
    by (simp add: shape_node_fields built)
qed

end
